theory Spec2Isabelle
  imports Complex_Main
begin

section \<open>JavaScript values\<close>

text \<open>
  The validators of \<^verbatim>\<open>src/index.ts\<close> take \<^verbatim>\<open>any\<close>: data as it comes out of a JSON
  parser, plus \<^verbatim>\<open>undefined\<close> for what is absent. A value is one of the primitives, an
  array, or a plain object. An object is given by its own enumerable string-keyed
  properties in the order \<^verbatim>\<open>Object.entries\<close> lists them; its prototype is
  \<^verbatim>\<open>Object.prototype\<close>, an array's is \<^verbatim>\<open>Array.prototype\<close>. The built-in functions
  and the two prototype objects are values too, because a property read that misses
  the own properties goes up the prototype chain and returns one of them.

  Objects with accessors, proxies and class instances are outside this universe.
  A string is a list of code units below 256 (the Latin-1 block).
\<close>

datatype jsnum = NaN | PosInfinity | NegInfinity | Finite rat

datatype proto = ObjectPrototype | ArrayPrototype

datatype jsval =
    JUndefined
  | JNull
  | JBoolean bool
  | JNumber jsnum
  | JString string
  | JFunction string
  | JPrototype proto
  | JArray "jsval list"
  | JObject "(string \<times> jsval) list"

text \<open>
  \<open>TypeError\<close> is the exception of the language (a property read of \<^verbatim>\<open>null\<close> or
  \<^verbatim>\<open>undefined\<close>, a call of something that is not a function). \<open>Unmodelled\<close> marks an
  operation whose result this development does not tabulate (a property read of a boolean,
  number, string or function, which goes through a wrapper prototype); no validator
  reaches one.
\<close>

datatype error = TypeError | Unmodelled

fun number_truthy :: "jsnum \<Rightarrow> bool" where
  "number_truthy NaN = False"
| "number_truthy PosInfinity = True"
| "number_truthy NegInfinity = True"
| "number_truthy (Finite r) = (r \<noteq> 0)"

text \<open>\<^verbatim>\<open>!x\<close> is \<open>\<not> truthy x\<close>.\<close>

fun truthy :: "jsval \<Rightarrow> bool" where
  "truthy JUndefined = False"
| "truthy JNull = False"
| "truthy (JBoolean b) = b"
| "truthy (JNumber n) = number_truthy n"
| "truthy (JString s) = (s \<noteq> [])"
| "truthy (JFunction f) = True"
| "truthy (JPrototype p) = True"
| "truthy (JArray xs) = True"
| "truthy (JObject kvs) = True"

fun typeof :: "jsval \<Rightarrow> string" where
  "typeof JUndefined = ''undefined''"
| "typeof JNull = ''object''"
| "typeof (JBoolean b) = ''boolean''"
| "typeof (JNumber n) = ''number''"
| "typeof (JString s) = ''string''"
| "typeof (JFunction f) = ''function''"
| "typeof (JPrototype p) = ''object''"
| "typeof (JArray xs) = ''object''"
| "typeof (JObject kvs) = ''object''"

text \<open>\<^verbatim>\<open>x != null\<close> (loose inequality) is \<open>\<not> nullish x\<close>.\<close>

fun nullish :: "jsval \<Rightarrow> bool" where
  "nullish JUndefined = True"
| "nullish JNull = True"
| "nullish v = False"

subsection \<open>Own properties and the prototype chain\<close>

definition digit_char :: "nat \<Rightarrow> char" where
  "digit_char d = char_of (48 + d)"

fun decimal :: "nat \<Rightarrow> string" where
  "decimal n = (if n < 10 then [digit_char n] else decimal (n div 10) @ [digit_char (n mod 10)])"

declare decimal.simps [simp del]

text \<open>The own enumerable properties of an array: its elements under their indices.\<close>

definition array_entries :: "jsval list \<Rightarrow> (string \<times> jsval) list" where
  "array_entries xs = zip (map decimal [0..<length xs]) xs"

definition object_prototype_methods :: "string list" where
  "object_prototype_methods =
     [''constructor'', ''__defineGetter__'', ''__defineSetter__'', ''hasOwnProperty'',
      ''__lookupGetter__'', ''__lookupSetter__'', ''isPrototypeOf'',
      ''propertyIsEnumerable'', ''toString'', ''valueOf'', ''toLocaleString'']"

definition array_prototype_methods :: "string list" where
  "array_prototype_methods =
     [''constructor'', ''at'', ''concat'', ''copyWithin'', ''fill'', ''find'', ''findIndex'',
      ''findLast'', ''findLastIndex'', ''lastIndexOf'', ''pop'', ''push'', ''reverse'',
      ''shift'', ''unshift'', ''slice'', ''sort'', ''splice'', ''includes'', ''indexOf'',
      ''join'', ''keys'', ''entries'', ''values'', ''forEach'', ''filter'', ''flat'',
      ''flatMap'', ''map'', ''every'', ''some'', ''reduce'', ''reduceRight'',
      ''toReversed'', ''toSorted'', ''toSpliced'', ''with'', ''toLocaleString'',
      ''toString'']"

text \<open>
  A read that reaches \<^verbatim>\<open>Object.prototype\<close>: its methods, and the accessor
  \<^verbatim>\<open>__proto__\<close>, which returns the prototype \<open>parent\<close> of the object the read
  started from. Every other name is \<^verbatim>\<open>undefined\<close>.
\<close>

definition from_object_prototype :: "jsval \<Rightarrow> string \<Rightarrow> jsval" where
  "from_object_prototype parent k =
     (if k \<in> set object_prototype_methods then JFunction (''Object.prototype.'' @ k)
      else if k = ''__proto__'' then parent
      else JUndefined)"

definition from_array_prototype :: "jsval \<Rightarrow> string \<Rightarrow> jsval" where
  "from_array_prototype parent k =
     (if k \<in> set array_prototype_methods then JFunction (''Array.prototype.'' @ k)
      else from_object_prototype parent k)"

text \<open>\<^verbatim>\<open>x[k]\<close> and \<^verbatim>\<open>x.k\<close> for a string \<open>k\<close>.\<close>

fun get_property :: "jsval \<Rightarrow> string \<Rightarrow> error + jsval" where
  "get_property JUndefined k = Inl TypeError"
| "get_property JNull k = Inl TypeError"
| "get_property (JObject kvs) k =
     Inr (case map_of kvs k of
            Some v \<Rightarrow> v
          | None \<Rightarrow> from_object_prototype (JPrototype ObjectPrototype) k)"
| "get_property (JArray xs) k =
     Inr (case map_of (array_entries xs) k of
            Some v \<Rightarrow> v
          | None \<Rightarrow>
              if k = ''length'' then JNumber (Finite (of_nat (length xs)))
              else from_array_prototype (JPrototype ArrayPrototype) k)"
| "get_property (JPrototype ObjectPrototype) k = Inr (from_object_prototype JNull k)"
| "get_property (JPrototype ArrayPrototype) k =
     Inr (if k = ''length'' then JNumber (Finite 0)
          else from_array_prototype (JPrototype ObjectPrototype) k)"
| "get_property (JBoolean b) k = Inl Unmodelled"
| "get_property (JNumber n) k = Inl Unmodelled"
| "get_property (JString s) k = Inl Unmodelled"
| "get_property (JFunction f) k = Inl Unmodelled"

text \<open>\<^verbatim>\<open>Object.entries(x)\<close>.\<close>

fun object_entries :: "jsval \<Rightarrow> error + (string \<times> jsval) list" where
  "object_entries JUndefined = Inl TypeError"
| "object_entries JNull = Inl TypeError"
| "object_entries (JObject kvs) = Inr kvs"
| "object_entries (JArray xs) = Inr (array_entries xs)"
| "object_entries (JPrototype p) = Inr []"
| "object_entries (JBoolean b) = Inr []"
| "object_entries (JNumber n) = Inr []"
| "object_entries (JString s) = Inr (array_entries (map (\<lambda>c. JString [c]) s))"
| "object_entries (JFunction f) = Inr []"

subsection \<open>Strings\<close>

text \<open>
  \<^verbatim>\<open>String.prototype.toLowerCase\<close> on code units below 256: the letters A to Z, and the
  Latin-1 capitals U+00C0 to U+00DE without the multiplication sign U+00D7, move up by 32.
\<close>

definition is_upper :: "char \<Rightarrow> bool" where
  "is_upper c =
     (let n = (of_char c :: nat)
      in (65 \<le> n \<and> n \<le> 90) \<or> (192 \<le> n \<and> n \<le> 214) \<or> (216 \<le> n \<and> n \<le> 222))"

definition lower_char :: "char \<Rightarrow> char" where
  "lower_char c = (if is_upper c then char_of ((of_char c :: nat) + 32) else c)"

text \<open>
  \<^verbatim>\<open>v.toLowerCase()\<close>. On anything but a string the method is missing (or is not the
  string method), and the call raises.
\<close>

fun toLowerCase :: "jsval \<Rightarrow> error + jsval" where
  "toLowerCase (JString s) = Inr (JString (map lower_char s))"
| "toLowerCase (JObject kvs) =
     (case map_of kvs ''toLowerCase'' of
        Some (JFunction f) \<Rightarrow> Inl Unmodelled
      | _ \<Rightarrow> Inl TypeError)"
| "toLowerCase v = Inl TypeError"

section \<open>The collaborators: diagnostic sink and semantic-version checker\<close>

text \<open>
  \<^verbatim>\<open>logger.err(message, ...values)\<close> records one diagnostic and returns. A run of a
  validator is the list of diagnostics it recorded, in order, and how it ended: with a
  value, or with an exception.
\<close>

type_synonym diag = "string \<times> jsval list"

type_synonym 'a run = "diag list \<times> (error + 'a)"

definition returns :: "'a \<Rightarrow> 'a run" where
  "returns a = ([], Inr a)"

definition throws :: "error \<Rightarrow> 'a run" where
  "throws e = ([], Inl e)"

definition lift :: "error + 'a \<Rightarrow> 'a run" where
  "lift r = ([], r)"

text \<open>Sequencing: an exception ends the run; the diagnostics accumulate.\<close>

definition and_then :: "'a run \<Rightarrow> ('a \<Rightarrow> 'b run) \<Rightarrow> 'b run" where
  "and_then m f =
     (case snd m of
        Inl e \<Rightarrow> (fst m, Inl e)
      | Inr a \<Rightarrow> (fst m @ fst (f a), snd (f a)))"

abbreviation diagnostics :: "'a run \<Rightarrow> diag list" where
  "diagnostics r \<equiv> fst r"

abbreviation verdict :: "'a run \<Rightarrow> error + 'a" where
  "verdict r \<equiv> snd r"

definition logger_err :: "string \<Rightarrow> jsval list \<Rightarrow> unit run" where
  "logger_err message values = ([(message, values)], Inr ())"

text \<open>\<^verbatim>\<open>logger.err(message, ...values); return false;\<close>\<close>

definition reject :: "string \<Rightarrow> jsval list \<Rightarrow> bool run" where
  "reject message values = and_then (logger_err message values) (\<lambda>_. returns False)"

text \<open>\<^verbatim>\<open>a || b\<close> on booleans: \<open>b\<close> runs only when \<open>a\<close> is false.\<close>

definition or_else :: "bool \<Rightarrow> bool run \<Rightarrow> bool run" where
  "or_else a b = (if a then returns True else b)"

text \<open>
  \<^verbatim>\<open>semver.valid\<close> belongs to the package \<^verbatim>\<open>semver\<close>, which is not part of the
  sources. The validators take it as the parameter \<open>valid\<close>: \<open>valid s\<close> says that
  \<^verbatim>\<open>semver.valid(s)\<close> is not \<^verbatim>\<open>null\<close>. They call it on strings only.
\<close>

fun semver_valid :: "(string \<Rightarrow> bool) \<Rightarrow> jsval \<Rightarrow> bool run" where
  "semver_valid valid (JString s) = returns (valid s)"
| "semver_valid valid v = throws Unmodelled"

text \<open>
  Modelled from the spec: the semantic-version checker is the npm package \<^verbatim>\<open>semver\<close>,
  which is not among the sources. The spec describes it as \<^verbatim>\<open>isValidSemVer\<close>, the full
  SemVer 2.0.0 grammar: numeric major, minor and patch, an optional prerelease of
  dot-separated alphanumeric identifiers after a hyphen, an optional build metadata of
  dot-separated identifiers after a plus sign, and no leading zeros in numeric
  identifiers.
\<close>

definition is_digit :: "char \<Rightarrow> bool" where
  "is_digit c = (c \<in> set ''0123456789'')"

definition is_identifier_char :: "char \<Rightarrow> bool" where
  "is_identifier_char c =
     (c \<in> set ''0123456789abcdefghijklmnopqrstuvwxyzABCDEFGHIJKLMNOPQRSTUVWXYZ-'')"

fun split_on :: "char \<Rightarrow> string \<Rightarrow> string list" where
  "split_on d [] = [[]]"
| "split_on d (c # cs) =
     (if c = d then [] # split_on d cs
      else (case split_on d cs of
              [] \<Rightarrow> [[c]]
            | p # ps \<Rightarrow> (c # p) # ps))"

text \<open>The text before the first \<open>d\<close>, and the text after it when there is one.\<close>

definition cut :: "char \<Rightarrow> string \<Rightarrow> string \<times> string option" where
  "cut d s =
     (takeWhile (\<lambda>c. c \<noteq> d) s,
      if d \<in> set s then Some (tl (dropWhile (\<lambda>c. c \<noteq> d) s)) else None)"

definition numeric_identifier :: "string \<Rightarrow> bool" where
  "numeric_identifier s = (s \<noteq> [] \<and> list_all is_digit s \<and> (length s = 1 \<or> hd s \<noteq> CHR ''0''))"

definition prerelease_identifier :: "string \<Rightarrow> bool" where
  "prerelease_identifier s =
     (s \<noteq> [] \<and> list_all is_identifier_char s \<and>
      (if list_all is_digit s then numeric_identifier s else True))"

definition build_identifier :: "string \<Rightarrow> bool" where
  "build_identifier s = (s \<noteq> [] \<and> list_all is_identifier_char s)"

text \<open>
  Modelled from the spec: \<^verbatim>\<open>isValidSemVer(candidate)\<close>, the one operation of the
  semantic-version checker, which stands for \<^verbatim>\<open>semver.valid\<close> of the absent package.
  The build metadata is what follows the first plus sign; the prerelease is what follows
  the first hyphen of the text before it.
\<close>

definition isValidSemVer :: "string \<Rightarrow> bool" where
  "isValidSemVer s =
     (case cut (CHR ''+'') s of (front, build) \<Rightarrow>
      case cut (CHR ''-'') front of (core, prerelease) \<Rightarrow>
        (case split_on (CHR ''.'') core of
           [major, minor, patch] \<Rightarrow>
             numeric_identifier major \<and> numeric_identifier minor \<and> numeric_identifier patch
         | _ \<Rightarrow> False) \<and>
        (case prerelease of
           None \<Rightarrow> True
         | Some p \<Rightarrow> list_all prerelease_identifier (split_on (CHR ''.'') p)) \<and>
        (case build of
           None \<Rightarrow> True
         | Some b \<Rightarrow> list_all build_identifier (split_on (CHR ''.'') b)))"

text \<open>
  What the code calls is \<^verbatim>\<open>semver.valid\<close> of the npm package (version 7), and the package
  is more lenient than the grammar above. It refuses a string of more than 256 code units,
  trims the string (\<^verbatim>\<open>version.trim()\<close>), and matches the rest against its strict pattern
  \<^verbatim>\<open>^v?MAJOR.MINOR.PATCH(-PRERELEASE)?(+BUILD)?$\<close>: one leading \<^verbatim>\<open>v\<close> is allowed, and
  what follows is the grammar of \<open>isValidSemVer\<close>. Major, minor and patch must not exceed
  \<^verbatim>\<open>Number.MAX_SAFE_INTEGER\<close>. The package is not among the sources: this is its published
  behaviour, written out for strings of code units below 256.
\<close>

definition is_space :: "char \<Rightarrow> bool" where
  "is_space c = ((of_char c :: nat) \<in> set [9, 10, 11, 12, 13, 32, 160])"

definition trim :: "string \<Rightarrow> string" where
  "trim s = rev (dropWhile is_space (rev (dropWhile is_space s)))"

definition strip_v :: "string \<Rightarrow> string" where
  "strip_v s = (case s of [] \<Rightarrow> [] | c # cs \<Rightarrow> if c = CHR ''v'' then cs else s)"

definition decimal_value :: "string \<Rightarrow> int" where
  "decimal_value s = foldl (\<lambda>n c. 10 * n + (of_char c - 48)) 0 s"

definition MAX_LENGTH :: nat where
  "MAX_LENGTH = 256"

definition MAX_SAFE_INTEGER :: int where
  "MAX_SAFE_INTEGER = 9007199254740991"

definition core_identifiers :: "string \<Rightarrow> string list" where
  "core_identifiers s = split_on (CHR ''.'') (fst (cut (CHR ''-'') (fst (cut (CHR ''+'') s))))"

definition npm_semver_valid :: "string \<Rightarrow> bool" where
  "npm_semver_valid version =
     (length version \<le> MAX_LENGTH \<and>
      isValidSemVer (strip_v (trim version)) \<and>
      list_all (\<lambda>part. decimal_value part \<le> MAX_SAFE_INTEGER)
        (core_identifiers (strip_v (trim version))))"

section \<open>The validators\<close>

definition isPackageExport :: "jsval \<Rightarrow> bool run" where
  "isPackageExport x =
     (if \<not> truthy x \<or> typeof x \<noteq> ''object'' then
        reject ''Invalid PackageExport: not an object.'' []
      else
        and_then (lift (get_property x ''main'')) (\<lambda>main.
        and_then (lift (get_property x ''types'')) (\<lambda>types.
          if \<not> truthy main \<or> typeof main \<noteq> ''string'' then
            reject ''Invalid PackageExport.main: expected string, got:'' [main]
          else if \<not> nullish types \<and> typeof types \<noteq> ''string'' then
            reject ''Invalid PackageExport.types: expected string or null, got:'' [types]
          else returns True)))"

definition isPackageAuthor :: "jsval \<Rightarrow> bool run" where
  "isPackageAuthor x =
     (if \<not> truthy x \<or> typeof x \<noteq> ''object'' then
        reject ''Invalid PackageAuthor: not an object.'' []
      else
        and_then (lift (get_property x ''name'')) (\<lambda>name.
        and_then (lift (get_property x ''email'')) (\<lambda>email.
        and_then (lift (get_property x ''url'')) (\<lambda>url.
          if \<not> truthy name \<or> typeof name \<noteq> ''string'' then
            reject ''Invalid PackageAuthor.name: expected string, got:'' [name]
          else if \<not> nullish email \<and> typeof email \<noteq> ''string'' then
            reject ''Invalid PackageAuthor.email: expected string or null, got:'' [email]
          else if \<not> nullish url \<and> typeof url \<noteq> ''string'' then
            reject ''Invalid PackageAuthor.url: expected string or null, got:'' [url]
          else returns True))))"

text \<open>
  The loops over \<^verbatim>\<open>Object.entries(...)\<close>. A loop's value is \<open>False\<close> when its body
  executed \<^verbatim>\<open>return false\<close>, and \<open>True\<close> when it ran to its end. The keys of the
  entries are strings, so \<^verbatim>\<open>typeof key !== "string"\<close> is false at every entry and the
  right operand of \<^verbatim>\<open>||\<close> always runs.
\<close>

fun maintainers_loop :: "(string \<times> jsval) list \<Rightarrow> bool run" where
  "maintainers_loop [] = returns True"
| "maintainers_loop ((key, v) # rest) =
     and_then (or_else (typeof (JString key) \<noteq> ''string'')
                 (and_then (isPackageAuthor v) (\<lambda>ok. returns (\<not> ok)))) (\<lambda>bad.
       if bad then
         reject (''Invalid maintainer entry for key '' @ [CHR 0x27] @ key @ [CHR 0x27] @ '':'') [v]
       else maintainers_loop rest)"

fun exports_loop :: "(string \<times> jsval) list \<Rightarrow> bool run" where
  "exports_loop [] = returns True"
| "exports_loop ((key, v) # rest) =
     (if typeof (JString key) \<noteq> ''string'' then
        reject ''Invalid export key:'' [JString key]
      else
        and_then (isPackageExport v) (\<lambda>ok.
          if \<not> ok then
            reject (''Invalid PackageExport for key '' @ [CHR 0x27] @ key @ [CHR 0x27] @ '':'') [v]
          else exports_loop rest))"

text \<open>The statements of \<^verbatim>\<open>isPackage\<close> that follow the destructuring assignment.\<close>

definition isPackage_checks ::
  "(string \<Rightarrow> bool) \<Rightarrow> jsval \<Rightarrow> jsval \<Rightarrow> jsval \<Rightarrow> jsval \<Rightarrow> jsval \<Rightarrow> jsval \<Rightarrow> bool run" where
  "isPackage_checks valid name version description author maintainers exports =
     and_then (or_else (\<not> truthy name \<or> typeof name \<noteq> ''string'')
                 (and_then (lift (toLowerCase name)) (\<lambda>lowered. returns (lowered \<noteq> name)))) (\<lambda>bad_name.
     if bad_name then
       reject ''Invalid Package.name: expected lowercase string, got:'' [name]
     else
     and_then (or_else (\<not> truthy version \<or> typeof version \<noteq> ''string'')
                 (and_then (semver_valid valid version) (\<lambda>ok. returns (\<not> ok)))) (\<lambda>bad_version.
     if bad_version then
       reject ''Invalid Package.version: not a valid semver string, got:'' [version]
     else if typeof description \<noteq> ''string'' then
       reject ''Invalid Package.description: expected string, got:'' [description]
     else
     and_then (or_else (\<not> truthy author \<or> typeof author \<noteq> ''object'')
                 (and_then (isPackageAuthor author) (\<lambda>ok. returns (\<not> ok)))) (\<lambda>bad_author.
     if bad_author then
       reject ''Invalid Package.author.'' []
     else
     and_then
       (if \<not> nullish maintainers then
          (if typeof maintainers \<noteq> ''object'' then
             reject ''Invalid Package.maintainers: expected object or null, got:'' [maintainers]
           else and_then (lift (object_entries maintainers)) maintainers_loop)
        else returns True) (\<lambda>maintainers_passed.
     if \<not> maintainers_passed then returns False
     else if \<not> truthy exports \<or> typeof exports \<noteq> ''object'' then
       reject ''Invalid Package.exports: expected object, got:'' [exports]
     else and_then (lift (object_entries exports)) exports_loop))))"

definition isPackage :: "(string \<Rightarrow> bool) \<Rightarrow> jsval \<Rightarrow> bool run" where
  "isPackage valid x =
     (if \<not> truthy x \<or> typeof x \<noteq> ''object'' then
        reject ''Invalid Package: not an object.'' []
      else
        and_then (lift (get_property x ''name'')) (\<lambda>name.
        and_then (lift (get_property x ''version'')) (\<lambda>version.
        and_then (lift (get_property x ''description'')) (\<lambda>description.
        and_then (lift (get_property x ''author'')) (\<lambda>author.
        and_then (lift (get_property x ''maintainers'')) (\<lambda>maintainers.
        and_then (lift (get_property x ''exports'')) (\<lambda>exports.
          isPackage_checks valid name version description author maintainers exports)))))))"

fun isTagValid_loop :: "(string \<Rightarrow> bool) \<Rightarrow> (string \<times> jsval) list \<Rightarrow> bool run" where
  "isTagValid_loop valid [] = returns True"
| "isTagValid_loop valid ((key, v) # rest) =
     (if typeof (JString key) \<noteq> ''string'' then
        reject ''Invalid StringMap: key not a string.'' []
      else
        and_then (isPackage valid v) (\<lambda>ok.
          if \<not> ok then returns False
          else isTagValid_loop valid rest))"

text \<open>
  \<^verbatim>\<open>versions[tag]\<close>: the code reaches it with \<open>tag\<close> a string, which is its own
  property key.
\<close>

fun get_computed :: "jsval \<Rightarrow> jsval \<Rightarrow> error + jsval" where
  "get_computed obj (JString k) = get_property obj k"
| "get_computed obj v = Inl Unmodelled"

definition isTagValid :: "(string \<Rightarrow> bool) \<Rightarrow> jsval \<Rightarrow> jsval \<Rightarrow> bool run" where
  "isTagValid valid tag versions =
     (if \<not> truthy tag \<or> typeof tag \<noteq> ''string'' then
        reject ''Invalid Parameter 'tag': not a string.'' []
      else if \<not> truthy versions \<or> typeof versions \<noteq> ''object'' then
        reject ''Invalid Parameter 'versions': not a StringMap of Packages'' []
      else
        and_then (lift (object_entries versions)) (\<lambda>entries.
        and_then (isTagValid_loop valid entries) (\<lambda>passed.
          if \<not> passed then returns False
          else
            and_then (lift (get_computed versions tag)) (\<lambda>found.
              if truthy found then returns True
              else returns False))))"

fun versions_loop :: "(string \<Rightarrow> bool) \<Rightarrow> (string \<times> jsval) list \<Rightarrow> bool run" where
  "versions_loop valid [] = returns True"
| "versions_loop valid ((key, v) # rest) =
     and_then (or_else (typeof (JString key) \<noteq> ''string'')
                 (and_then (isPackage valid v) (\<lambda>ok. returns (\<not> ok)))) (\<lambda>bad.
       if bad then
         reject (''Invalid RemotePackage version '' @ [CHR 0x27] @ key @ [CHR 0x27] @ '':'') [v]
       else versions_loop valid rest)"

fun tags_loop :: "(string \<Rightarrow> bool) \<Rightarrow> jsval \<Rightarrow> (string \<times> jsval) list \<Rightarrow> bool run" where
  "tags_loop valid versions [] = returns True"
| "tags_loop valid versions ((key, v) # rest) =
     and_then (or_else (typeof (JString key) \<noteq> ''string'' \<or> typeof v \<noteq> ''string'')
                 (and_then (isTagValid valid v versions) (\<lambda>ok. returns (\<not> ok)))) (\<lambda>bad.
       if bad then
         reject (''Invalid RemotePackage tag '' @ [CHR 0x27] @ key @ [CHR 0x27] @ '':'') [v]
       else tags_loop valid versions rest)"

definition isRemotePackage :: "(string \<Rightarrow> bool) \<Rightarrow> jsval \<Rightarrow> bool run" where
  "isRemotePackage valid x =
     (if \<not> truthy x \<or> typeof x \<noteq> ''object'' then
        reject ''Invalid RemotePackage: not an object.'' []
      else
        and_then (lift (get_property x ''id'')) (\<lambda>id.
        and_then (lift (get_property x ''name'')) (\<lambda>name.
        and_then (lift (get_property x ''author'')) (\<lambda>author.
        and_then (lift (get_property x ''tags'')) (\<lambda>tags.
        and_then (lift (get_property x ''versions'')) (\<lambda>versions.
          if \<not> truthy id \<or> typeof id \<noteq> ''string'' then
            reject ''Invalid RemotePackage.id: expected string, got:'' [id]
          else if \<not> truthy name \<or> typeof name \<noteq> ''string'' then
            reject ''Invalid RemotePackage.name: expected string, got:'' [name]
          else
          and_then (or_else (\<not> truthy author \<or> typeof author \<noteq> ''object'')
                      (and_then (isPackageAuthor author) (\<lambda>ok. returns (\<not> ok)))) (\<lambda>bad_author.
          if bad_author then
            reject ''Invalid RemotePackage.author.'' []
          else if \<not> truthy versions \<or> typeof versions \<noteq> ''object'' then
            reject ''Invalid RemotePackage.versions: expected object, got:'' [versions]
          else
          and_then (and_then (lift (object_entries versions)) (versions_loop valid)) (\<lambda>versions_passed.
          if \<not> versions_passed then returns False
          else if \<not> truthy tags \<or> typeof tags \<noteq> ''object'' then
            reject ''Invalid RemotePackage.tags: expected object, got:'' [tags]
          else and_then (lift (object_entries tags)) (tags_loop valid versions)))))))))"

section \<open>Objects with accessor properties\<close>

text \<open>
  The parameter of a validator has the type \<^verbatim>\<open>any\<close>, so a caller can also pass an object
  whose properties are accessors. Reading such a property runs its getter, which returns a
  value or throws. \<open>Accessors ps\<close> is an object with the own accessor properties \<open>ps\<close>,
  each given by the outcome of its getter; \<open>Data v\<close> is a value of the data universe
  above. \<open>isPackageExport_any\<close> is \<^verbatim>\<open>isPackageExport\<close> on this wider type: the same
  statements, with the reads of the destructuring assignment going through the getters.
\<close>

datatype any_value = Data jsval | Accessors "(string \<times> (error + jsval)) list"

fun any_truthy :: "any_value \<Rightarrow> bool" where
  "any_truthy (Data v) = truthy v"
| "any_truthy (Accessors ps) = True"

fun any_typeof :: "any_value \<Rightarrow> string" where
  "any_typeof (Data v) = typeof v"
| "any_typeof (Accessors ps) = ''object''"

fun any_get_property :: "any_value \<Rightarrow> string \<Rightarrow> error + jsval" where
  "any_get_property (Data v) k = get_property v k"
| "any_get_property (Accessors ps) k =
     (case map_of ps k of
        Some outcome \<Rightarrow> outcome
      | None \<Rightarrow> Inr (from_object_prototype (JPrototype ObjectPrototype) k))"

definition isPackageExport_any :: "any_value \<Rightarrow> bool run" where
  "isPackageExport_any x =
     (if \<not> any_truthy x \<or> any_typeof x \<noteq> ''object'' then
        reject ''Invalid PackageExport: not an object.'' []
      else
        and_then (lift (any_get_property x ''main'')) (\<lambda>main.
        and_then (lift (any_get_property x ''types'')) (\<lambda>types.
          if \<not> truthy main \<or> typeof main \<noteq> ''string'' then
            reject ''Invalid PackageExport.main: expected string, got:'' [main]
          else if \<not> nullish types \<and> typeof types \<noteq> ''string'' then
            reject ''Invalid PackageExport.types: expected string or null, got:'' [types]
          else returns True)))"

section \<open>Reading the verdicts\<close>

text \<open>
  Auxiliary notions for the proofs. \<open>field x k\<close> is what the destructuring assignment
  binds to \<open>k\<close> once \<open>x\<close> has passed the object guard, \<open>entries_of x\<close> what the loop
  over \<^verbatim>\<open>Object.entries(x)\<close> walks, and \<open>accepted r\<close> says that the run \<open>r\<close> returned
  \<^verbatim>\<open>true\<close>. The remaining predicates are the conditions under which the steps of
  \<^verbatim>\<open>isPackage\<close> and \<^verbatim>\<open>isTagValid\<close> let the call go on.
\<close>

definition field :: "jsval \<Rightarrow> string \<Rightarrow> jsval" where
  "field x k = (case get_property x k of Inr v \<Rightarrow> v | Inl e \<Rightarrow> JUndefined)"

definition entries_of :: "jsval \<Rightarrow> (string \<times> jsval) list" where
  "entries_of x = (case object_entries x of Inr es \<Rightarrow> es | Inl e \<Rightarrow> [])"

definition accepted :: "bool run \<Rightarrow> bool" where
  "accepted r = (verdict r = Inr True)"

definition name_accepted :: "jsval \<Rightarrow> bool" where
  "name_accepted name = (case name of JString s \<Rightarrow> s \<noteq> [] \<and> map lower_char s = s | _ \<Rightarrow> False)"

definition version_accepted :: "(string \<Rightarrow> bool) \<Rightarrow> jsval \<Rightarrow> bool" where
  "version_accepted valid version = (case version of JString s \<Rightarrow> s \<noteq> [] \<and> valid s | _ \<Rightarrow> False)"

definition maintainers_accepted :: "jsval \<Rightarrow> bool" where
  "maintainers_accepted maintainers =
     (nullish maintainers \<or>
      typeof maintainers = ''object'' \<and>
      list_all (\<lambda>e. accepted (isPackageAuthor (snd e))) (entries_of maintainers))"

definition tag_found :: "jsval \<Rightarrow> jsval \<Rightarrow> bool" where
  "tag_found versions tag = (case tag of JString k \<Rightarrow> k \<noteq> [] \<and> truthy (field versions k) | _ \<Rightarrow> False)"

definition exports_accepted :: "jsval \<Rightarrow> bool" where
  "exports_accepted exports =
     (truthy exports \<and> typeof exports = ''object'' \<and>
      list_all (\<lambda>e. accepted (isPackageExport (snd e))) (entries_of exports))"

section \<open>Test data\<close>

text \<open>Records in the shape the test scenarios of the specification use.\<close>

definition manifest_record :: "string \<Rightarrow> string \<Rightarrow> string \<Rightarrow> jsval \<Rightarrow> jsval \<Rightarrow> jsval" where
  "manifest_record name version description author exports =
     JObject [(''name'', JString name), (''version'', JString version),
              (''description'', JString description), (''author'', author),
              (''exports'', exports)]"

definition remote_record :: "string \<Rightarrow> string \<Rightarrow> jsval \<Rightarrow> jsval \<Rightarrow> jsval \<Rightarrow> jsval" where
  "remote_record ident name author versions tags =
     JObject [(''id'', JString ident), (''name'', JString name), (''author'', author),
              (''versions'', versions), (''tags'', tags)]"

definition example_author :: jsval where
  "example_author = JObject [(''name'', JString ''Ann'')]"

definition example_exports :: jsval where
  "example_exports = JObject [(''.'', JObject [(''main'', JString ''index.js'')])]"

definition example_manifest :: "string \<Rightarrow> string \<Rightarrow> jsval" where
  "example_manifest name version =
     manifest_record name version ''String left pad'' example_author example_exports"

definition example_fields :: "(string \<times> jsval) list" where
  "example_fields =
     [(''name'', JString ''left-pad''), (''version'', JString ''0.1.0''),
      (''description'', JString ''String left pad''), (''author'', example_author),
      (''exports'', example_exports)]"

section \<open>Properties of the sequencing operators\<close>

lemma and_then_pure [simp]: "and_then ([], Inr a) f = f a"
  by (simp add: and_then_def)

lemma and_then_returns [simp]: "and_then (returns a) f = f a"
  by (simp add: and_then_def returns_def)

lemma and_then_lift_Inr [simp]: "and_then (lift (Inr a)) f = f a"
  by (simp add: and_then_def lift_def)

lemma verdict_and_then:
  "verdict (and_then m f) = (case verdict m of Inl e \<Rightarrow> Inl e | Inr a \<Rightarrow> verdict (f a))"
  by (simp add: and_then_def split: sum.splits)

lemma verdict_returns [simp]: "verdict (returns a) = Inr a"
  by (simp add: returns_def)

lemma verdict_reject [simp]: "verdict (reject m vs) = Inr False"
  by (simp add: reject_def logger_err_def and_then_def returns_def)

lemma or_else_simps [simp]: "or_else True b = returns True" "or_else False b = b"
  by (simp_all add: or_else_def)

section \<open>Objects behind the guard\<close>

text \<open>
  What passes \<^verbatim>\<open>!x || typeof x !== "object"\<close> is a plain object, an array or a prototype
  object; on these a property read and \<^verbatim>\<open>Object.entries\<close> do not raise.
\<close>

lemma object_cases:
  assumes "truthy x" "typeof x = ''object''"
  obtains kvs where "x = JObject kvs" | xs where "x = JArray xs" | p where "x = JPrototype p"
  using assms by (cases x) simp_all

lemma get_property_object:
  assumes "truthy x" "typeof x = ''object''"
  shows "get_property x k = Inr (field x k)"
proof (rule object_cases [OF assms])
  fix kvs assume "x = JObject kvs" then show ?thesis by (simp add: field_def)
next
  fix xs assume "x = JArray xs" then show ?thesis by (simp add: field_def)
next
  fix p assume "x = JPrototype p" then show ?thesis by (cases p) (simp_all add: field_def)
qed

lemma object_entries_object:
  assumes "truthy x" "typeof x = ''object''"
  shows "object_entries x = Inr (entries_of x)"
  by (rule object_cases [OF assms]) (simp_all add: entries_of_def)

section \<open>The verdict of each validator\<close>

text \<open>
  For each validator: the boolean it returns, as a condition on the fields of its
  argument (\<open>_verdict\<close>); and that a call returning \<^verbatim>\<open>true\<close> records no diagnostic
  (\<open>_accepted\<close>).
\<close>

lemma isPackageExport_verdict:
  "verdict (isPackageExport x) =
     Inr (truthy x \<and> typeof x = ''object'' \<and>
          truthy (field x ''main'') \<and> typeof (field x ''main'') = ''string'' \<and>
          (nullish (field x ''types'') \<or> typeof (field x ''types'') = ''string''))"
  by (auto simp: isPackageExport_def get_property_object)

lemma isPackageAuthor_verdict:
  "verdict (isPackageAuthor x) =
     Inr (truthy x \<and> typeof x = ''object'' \<and>
          truthy (field x ''name'') \<and> typeof (field x ''name'') = ''string'' \<and>
          (nullish (field x ''email'') \<or> typeof (field x ''email'') = ''string'') \<and>
          (nullish (field x ''url'') \<or> typeof (field x ''url'') = ''string''))"
  by (auto simp: isPackageAuthor_def get_property_object)

lemma isPackageExport_accept:
  "verdict (isPackageExport x) = Inr True \<Longrightarrow> isPackageExport x = ([], Inr True)"
  by (auto simp: isPackageExport_def get_property_object returns_def split: if_splits)

lemma isPackageAuthor_accept:
  "verdict (isPackageAuthor x) = Inr True \<Longrightarrow> isPackageAuthor x = ([], Inr True)"
  by (auto simp: isPackageAuthor_def get_property_object returns_def split: if_splits)

lemma verdict_total:
  "verdict r = Inr b \<Longrightarrow> verdict r = Inr (accepted r)"
  by (simp add: accepted_def)

lemma isPackageExport_total: "verdict (isPackageExport x) = Inr (accepted (isPackageExport x))"
  by (rule verdict_total) (rule isPackageExport_verdict)

lemma isPackageAuthor_total: "verdict (isPackageAuthor x) = Inr (accepted (isPackageAuthor x))"
  by (rule verdict_total) (rule isPackageAuthor_verdict)

lemma isPackageExport_accepted:
  "accepted (isPackageExport x) \<Longrightarrow> isPackageExport x = ([], Inr True)"
  by (simp add: accepted_def isPackageExport_accept)

lemma isPackageAuthor_accepted:
  "accepted (isPackageAuthor x) \<Longrightarrow> isPackageAuthor x = ([], Inr True)"
  by (simp add: accepted_def isPackageAuthor_accept)

lemma maintainers_loop_verdict:
  "verdict (maintainers_loop es) = Inr (list_all (\<lambda>e. accepted (isPackageAuthor (snd e))) es)"
proof (induction es)
  case Nil
  show ?case by simp
next
  case (Cons e es)
  obtain k v where e: "e = (k, v)" by (cases e)
  show ?case
    using Cons.IH by (simp add: e verdict_and_then isPackageAuthor_total)
qed

lemma maintainers_loop_accepted_iff:
  "accepted (maintainers_loop es) = list_all (\<lambda>e. accepted (isPackageAuthor (snd e))) es"
  by (simp add: accepted_def [of "maintainers_loop es"] maintainers_loop_verdict)

lemma maintainers_loop_accepted:
  "accepted (maintainers_loop es) \<Longrightarrow> maintainers_loop es = ([], Inr True)"
proof (induction es)
  case Nil
  show ?case by (simp add: returns_def)
next
  case (Cons e es)
  obtain k v where e: "e = (k, v)" by (cases e)
  from Cons.prems have "list_all (\<lambda>e. accepted (isPackageAuthor (snd e))) (e # es)"
    by (simp only: maintainers_loop_accepted_iff)
  then have "accepted (isPackageAuthor v)" and "accepted (maintainers_loop es)"
    by (simp_all add: maintainers_loop_accepted_iff e)
  then show ?case
    using Cons.IH by (simp add: e isPackageAuthor_accepted)
qed

lemma exports_loop_verdict:
  "verdict (exports_loop es) = Inr (list_all (\<lambda>e. accepted (isPackageExport (snd e))) es)"
proof (induction es)
  case Nil
  show ?case by simp
next
  case (Cons e es)
  obtain k v where e: "e = (k, v)" by (cases e)
  show ?case
    using Cons.IH by (simp add: e verdict_and_then isPackageExport_total)
qed

lemma exports_loop_accepted_iff:
  "accepted (exports_loop es) = list_all (\<lambda>e. accepted (isPackageExport (snd e))) es"
  by (simp add: accepted_def [of "exports_loop es"] exports_loop_verdict)

lemma exports_loop_accepted:
  "accepted (exports_loop es) \<Longrightarrow> exports_loop es = ([], Inr True)"
proof (induction es)
  case Nil
  show ?case by (simp add: returns_def)
next
  case (Cons e es)
  obtain k v where e: "e = (k, v)" by (cases e)
  from Cons.prems have "list_all (\<lambda>e. accepted (isPackageExport (snd e))) (e # es)"
    by (simp only: exports_loop_accepted_iff)
  then have "accepted (isPackageExport v)" and "accepted (exports_loop es)"
    by (simp_all add: exports_loop_accepted_iff e)
  then show ?case
    using Cons.IH by (simp add: e isPackageExport_accepted)
qed

lemma name_step:
  "or_else (\<not> truthy name \<or> typeof name \<noteq> ''string'')
     (and_then (lift (toLowerCase name)) (\<lambda>lowered. returns (lowered \<noteq> name))) =
   returns (\<not> name_accepted name)"
  by (cases name) (auto simp: name_accepted_def or_else_def)

lemma version_step:
  "or_else (\<not> truthy version \<or> typeof version \<noteq> ''string'')
     (and_then (semver_valid valid version) (\<lambda>ok. returns (\<not> ok))) =
   returns (\<not> version_accepted valid version)"
  by (cases version) (auto simp: version_accepted_def or_else_def)

lemma isPackageAuthor_accepted_object:
  "accepted (isPackageAuthor x) \<Longrightarrow> truthy x \<and> typeof x = ''object''"
  by (simp add: accepted_def isPackageAuthor_verdict)

lemma author_step_verdict:
  "verdict (or_else c (and_then (isPackageAuthor author) (\<lambda>ok. returns (\<not> ok)))) =
   Inr (c \<or> \<not> accepted (isPackageAuthor author))"
  by (cases c) (simp_all add: verdict_and_then isPackageAuthor_total)

lemma object_truthy: "typeof x = ''object'' \<Longrightarrow> \<not> nullish x \<Longrightarrow> truthy x"
  by (cases x) simp_all

lemma maintainers_step_verdict:
  assumes "c1 = (\<not> nullish maintainers)" "c2 = (typeof maintainers \<noteq> ''object'')"
  shows "verdict (if c1 then
      (if c2 then reject message values
       else and_then (lift (object_entries maintainers)) maintainers_loop)
    else returns True) = Inr (maintainers_accepted maintainers)"
  unfolding assms
  by (auto simp: maintainers_accepted_def object_entries_object object_truthy
      maintainers_loop_verdict)

lemma maintainers_step_accepted:
  assumes "maintainers_accepted maintainers"
    and c: "c1 = (\<not> nullish maintainers)" "c2 = (typeof maintainers \<noteq> ''object'')"
  shows "(if c1 then
      (if c2 then reject message values
       else and_then (lift (object_entries maintainers)) maintainers_loop)
    else returns True) = returns True"
proof (cases "nullish maintainers")
  case True
  then show ?thesis by (simp add: c)
next
  case False
  with assms have obj: "typeof maintainers = ''object''"
    and ok: "accepted (maintainers_loop (entries_of maintainers))"
    by (simp_all add: maintainers_accepted_def maintainers_loop_accepted_iff)
  from obj False have "truthy maintainers" by (rule object_truthy)
  with obj False show ?thesis
    by (simp add: c object_entries_object maintainers_loop_accepted [OF ok] returns_def)
qed

lemma exports_step_verdict:
  assumes "c = (\<not> truthy exports \<or> typeof exports \<noteq> ''object'')"
  shows "verdict (if c then reject message values
     else and_then (lift (object_entries exports)) exports_loop) = Inr (exports_accepted exports)"
  unfolding assms
  by (auto simp: exports_accepted_def object_entries_object exports_loop_verdict)

lemma exports_step_accepted:
  assumes "exports_accepted exports"
    and c: "c = (\<not> truthy exports \<or> typeof exports \<noteq> ''object'')"
  shows "(if c then reject message values
     else and_then (lift (object_entries exports)) exports_loop) = ([], Inr True)"
proof -
  from assms have obj: "truthy exports" "typeof exports = ''object''"
    and ok: "accepted (exports_loop (entries_of exports))"
    by (simp_all add: exports_accepted_def exports_loop_accepted_iff)
  show ?thesis
    by (simp add: c obj object_entries_object exports_loop_accepted [OF ok])
qed

lemma isPackage_checks_verdict:
  "verdict (isPackage_checks valid name version description author maintainers exports) =
     Inr (name_accepted name \<and> version_accepted valid version \<and>
          typeof description = ''string'' \<and> accepted (isPackageAuthor author) \<and>
          maintainers_accepted maintainers \<and> exports_accepted exports)"
  unfolding isPackage_checks_def name_step version_step
  by (auto simp: verdict_and_then author_step_verdict maintainers_step_verdict
      exports_step_verdict dest: isPackageAuthor_accepted_object)

lemma isPackage_checks_accepted:
  assumes "accepted (isPackage_checks valid name version description author maintainers exports)"
  shows "isPackage_checks valid name version description author maintainers exports = ([], Inr True)"
proof -
  from assms have ok: "name_accepted name" "version_accepted valid version"
    "typeof description = ''string''" "accepted (isPackageAuthor author)"
    "maintainers_accepted maintainers" "exports_accepted exports"
    by (simp_all add: accepted_def isPackage_checks_verdict)
  from ok(4) have obj: "truthy author" "typeof author = ''object''"
    by (simp_all add: isPackageAuthor_accepted_object)
  show ?thesis
    unfolding isPackage_checks_def name_step version_step
    by (simp add: ok obj isPackageAuthor_accepted [OF ok(4)] maintainers_step_accepted
        exports_step_accepted)
qed

lemma isPackage_verdict:
  "verdict (isPackage valid x) =
     Inr (truthy x \<and> typeof x = ''object'' \<and>
          name_accepted (field x ''name'') \<and>
          version_accepted valid (field x ''version'') \<and>
          typeof (field x ''description'') = ''string'' \<and>
          accepted (isPackageAuthor (field x ''author'')) \<and>
          maintainers_accepted (field x ''maintainers'') \<and>
          exports_accepted (field x ''exports''))"
  by (auto simp: isPackage_def get_property_object isPackage_checks_verdict)

lemma isPackage_total: "verdict (isPackage valid x) = Inr (accepted (isPackage valid x))"
  by (rule verdict_total) (rule isPackage_verdict)

lemma isPackage_accepted:
  assumes "accepted (isPackage valid x)"
  shows "isPackage valid x = ([], Inr True)"
proof -
  from assms have obj: "truthy x" "typeof x = ''object''"
    by (simp_all add: accepted_def isPackage_verdict)
  from assms have "accepted (isPackage_checks valid (field x ''name'') (field x ''version'')
      (field x ''description'') (field x ''author'') (field x ''maintainers'') (field x ''exports''))"
    by (simp add: accepted_def isPackage_def obj get_property_object)
  then have "isPackage_checks valid (field x ''name'') (field x ''version'')
      (field x ''description'') (field x ''author'') (field x ''maintainers'') (field x ''exports'') =
      ([], Inr True)"
    by (rule isPackage_checks_accepted)
  then show ?thesis
    by (simp add: isPackage_def obj get_property_object)
qed

lemma guard_verdict:
  assumes "verdict m = Inr (accepted m)"
  shows "verdict (or_else c (and_then m (\<lambda>ok. returns (\<not> ok)))) = Inr (c \<or> \<not> accepted m)"
  by (cases c) (simp_all add: verdict_and_then assms)

lemma isTagValid_loop_verdict:
  "verdict (isTagValid_loop valid es) =
     Inr (list_all (\<lambda>e. accepted (isPackage valid (snd e))) es)"
proof (induction es)
  case Nil
  show ?case by simp
next
  case (Cons e es)
  obtain k v where e: "e = (k, v)" by (cases e)
  show ?case
    using Cons.IH by (simp add: e verdict_and_then isPackage_total)
qed

lemma isTagValid_loop_accepted_iff:
  "accepted (isTagValid_loop valid es) = list_all (\<lambda>e. accepted (isPackage valid (snd e))) es"
  by (simp add: accepted_def [of "isTagValid_loop valid es"] isTagValid_loop_verdict)

lemma isTagValid_loop_accepted:
  "accepted (isTagValid_loop valid es) \<Longrightarrow> isTagValid_loop valid es = ([], Inr True)"
proof (induction es)
  case Nil
  show ?case by (simp add: returns_def)
next
  case (Cons e es)
  obtain k v where e: "e = (k, v)" by (cases e)
  from Cons.prems have "list_all (\<lambda>e. accepted (isPackage valid (snd e))) (e # es)"
    by (simp only: isTagValid_loop_accepted_iff)
  then have "accepted (isPackage valid v)" and "accepted (isTagValid_loop valid es)"
    by (simp_all add: isTagValid_loop_accepted_iff e)
  then show ?case
    using Cons.IH by (simp add: e isPackage_accepted)
qed

lemma isTagValid_verdict:
  "verdict (isTagValid valid tag versions) =
     Inr (truthy versions \<and> typeof versions = ''object'' \<and>
          list_all (\<lambda>e. accepted (isPackage valid (snd e))) (entries_of versions) \<and>
          tag_found versions tag)"
proof (cases "truthy tag \<and> typeof tag = ''string''")
  case False
  then show ?thesis
    by (cases tag) (auto simp: isTagValid_def tag_found_def)
next
  case True
  then obtain k where tag: "tag = JString k" "k \<noteq> []"
    by (cases tag) simp_all
  show ?thesis
    by (auto simp: tag isTagValid_def tag_found_def object_entries_object verdict_and_then
        isTagValid_loop_verdict get_property_object)
qed

lemma isTagValid_total:
  "verdict (isTagValid valid tag versions) = Inr (accepted (isTagValid valid tag versions))"
  by (rule verdict_total) (rule isTagValid_verdict)

lemma isTagValid_accepted:
  assumes "accepted (isTagValid valid tag versions)"
  shows "isTagValid valid tag versions = ([], Inr True)"
proof -
  from assms have obj: "truthy versions" "typeof versions = ''object''"
    and all: "list_all (\<lambda>e. accepted (isPackage valid (snd e))) (entries_of versions)"
    and found: "tag_found versions tag"
    by (simp_all add: accepted_def isTagValid_verdict)
  from found obtain k where tag: "tag = JString k" "k \<noteq> []" "truthy (field versions k)"
    by (cases tag) (simp_all add: tag_found_def)
  from all have "accepted (isTagValid_loop valid (entries_of versions))"
    by (simp only: isTagValid_loop_accepted_iff)
  then have "isTagValid_loop valid (entries_of versions) = ([], Inr True)"
    by (rule isTagValid_loop_accepted)
  then show ?thesis
    by (simp add: isTagValid_def tag obj object_entries_object get_property_object returns_def)
qed

lemma versions_loop_verdict:
  "verdict (versions_loop valid es) =
     Inr (list_all (\<lambda>e. accepted (isPackage valid (snd e))) es)"
proof (induction es)
  case Nil
  show ?case by simp
next
  case (Cons e es)
  obtain k v where e: "e = (k, v)" by (cases e)
  show ?case
    using Cons.IH by (simp add: e verdict_and_then guard_verdict isPackage_total)
qed

lemma versions_loop_accepted:
  "list_all (\<lambda>e. accepted (isPackage valid (snd e))) es \<Longrightarrow>
   versions_loop valid es = ([], Inr True)"
proof (induction es)
  case Nil
  show ?case by (simp add: returns_def)
next
  case (Cons e es)
  obtain k v where e: "e = (k, v)" by (cases e)
  from Cons.prems have "accepted (isPackage valid v)"
    by (simp add: e)
  then have "isPackage valid v = ([], Inr True)"
    by (rule isPackage_accepted)
  then show ?case
    using Cons by (simp add: e)
qed

lemma tags_loop_verdict:
  "verdict (tags_loop valid versions es) =
     Inr (list_all (\<lambda>e. accepted (isTagValid valid (snd e) versions)) es)"
proof (induction es)
  case Nil
  show ?case by simp
next
  case (Cons e es)
  obtain k v where e: "e = (k, v)" by (cases e)
  have "typeof v \<noteq> ''string'' \<Longrightarrow> \<not> accepted (isTagValid valid v versions)"
    by (cases v) (simp_all add: accepted_def isTagValid_verdict tag_found_def)
  then show ?case
    using Cons.IH by (auto simp: e verdict_and_then guard_verdict isTagValid_total)
qed

lemma tags_loop_accepted:
  "list_all (\<lambda>e. accepted (isTagValid valid (snd e) versions)) es \<Longrightarrow>
   tags_loop valid versions es = ([], Inr True)"
proof (induction es)
  case Nil
  show ?case by (simp add: returns_def)
next
  case (Cons e es)
  obtain k v where e: "e = (k, v)" by (cases e)
  from Cons.prems have ok: "accepted (isTagValid valid v versions)"
    by (simp add: e)
  then have "typeof v = ''string''"
    by (cases v) (simp_all add: accepted_def isTagValid_verdict tag_found_def)
  then show ?case
    using Cons by (simp add: e isTagValid_accepted [OF ok])
qed

lemma isRemotePackage_verdict:
  "verdict (isRemotePackage valid x) =
     Inr (truthy x \<and> typeof x = ''object'' \<and>
          truthy (field x ''id'') \<and> typeof (field x ''id'') = ''string'' \<and>
          truthy (field x ''name'') \<and> typeof (field x ''name'') = ''string'' \<and>
          accepted (isPackageAuthor (field x ''author'')) \<and>
          truthy (field x ''versions'') \<and> typeof (field x ''versions'') = ''object'' \<and>
          list_all (\<lambda>e. accepted (isPackage valid (snd e))) (entries_of (field x ''versions'')) \<and>
          truthy (field x ''tags'') \<and> typeof (field x ''tags'') = ''object'' \<and>
          list_all (\<lambda>e. accepted (isTagValid valid (snd e) (field x ''versions'')))
            (entries_of (field x ''tags'')))"
  by (auto simp: isRemotePackage_def get_property_object verdict_and_then guard_verdict
      isPackageAuthor_total object_entries_object versions_loop_verdict tags_loop_verdict
      dest: isPackageAuthor_accepted_object)

lemma isRemotePackage_total:
  "verdict (isRemotePackage valid x) = Inr (accepted (isRemotePackage valid x))"
  by (rule verdict_total) (rule isRemotePackage_verdict)

lemma isRemotePackage_accepted:
  assumes "accepted (isRemotePackage valid x)"
  shows "isRemotePackage valid x = ([], Inr True)"
proof -
  let ?versions = "field x ''versions''" and ?tags = "field x ''tags''"
  from assms have obj: "truthy x" "typeof x = ''object''"
    and ok: "truthy (field x ''id'')" "typeof (field x ''id'') = ''string''"
      "truthy (field x ''name'')" "typeof (field x ''name'') = ''string''"
      "truthy ?versions" "typeof ?versions = ''object''"
      "truthy ?tags" "typeof ?tags = ''object''"
    and author: "accepted (isPackageAuthor (field x ''author''))"
    and versions: "list_all (\<lambda>e. accepted (isPackage valid (snd e))) (entries_of ?versions)"
    and tags: "list_all (\<lambda>e. accepted (isTagValid valid (snd e) ?versions)) (entries_of ?tags)"
    by (simp_all add: accepted_def isRemotePackage_verdict)
  note clean = isPackageAuthor_accepted [OF author] versions_loop_accepted [OF versions]
    tags_loop_accepted [OF tags]
  from author have "truthy (field x ''author'')" "typeof (field x ''author'') = ''object''"
    by (simp_all add: isPackageAuthor_accepted_object)
  then show ?thesis
    by (simp add: isRemotePackage_def obj ok get_property_object object_entries_object clean)
qed

section \<open>The test data pass\<close>

lemma field_JObject:
  "field (JObject kvs) k =
     (case map_of kvs k of Some v \<Rightarrow> v
      | None \<Rightarrow> from_object_prototype (JPrototype ObjectPrototype) k)"
  by (simp add: field_def)

lemma isValidSemVer_1_0_0: "isValidSemVer ''1.0.0''"
  by (simp add: isValidSemVer_def cut_def numeric_identifier_def is_digit_def)

lemma example_author_accepted: "accepted (isPackageAuthor example_author)"
  by (simp add: accepted_def isPackageAuthor_verdict example_author_def field_JObject
      from_object_prototype_def object_prototype_methods_def)

lemma example_exports_accepted: "exports_accepted example_exports"
  by (simp add: exports_accepted_def example_exports_def entries_of_def accepted_def
      isPackageExport_verdict field_JObject from_object_prototype_def object_prototype_methods_def)

lemma example_manifest_accepted:
  "verdict (isPackage isValidSemVer (example_manifest ''left-pad'' ''1.0.0'')) = Inr True"
  by (simp add: isPackage_verdict example_manifest_def manifest_record_def field_JObject
      name_accepted_def version_accepted_def lower_char_def is_upper_def isValidSemVer_1_0_0
      example_author_accepted example_exports_accepted maintainers_accepted_def
      from_object_prototype_def object_prototype_methods_def)

section \<open>Fields of records, and what follows from a verdict\<close>

lemma field_Cons:
  "field (JObject ((k, v) # kvs)) k' = (if k' = k then v else field (JObject kvs) k')"
  by (simp add: field_def)

lemma field_absent:
  assumes "map_of kvs k = None" "k \<notin> set object_prototype_methods" "k \<noteq> ''__proto__''"
  shows "field (JObject kvs) k = JUndefined"
  using assms by (simp add: field_JObject from_object_prototype_def)

lemma field_present: "map_of kvs k = Some v \<Longrightarrow> field (JObject kvs) k = v"
  by (simp add: field_JObject)

lemma author_keys_not_inherited:
  "''email'' \<notin> set object_prototype_methods" "''url'' \<notin> set object_prototype_methods"
  by (simp_all add: object_prototype_methods_def)

lemma isPackage_accepted_object:
  "verdict (isPackage valid p) = Inr True \<Longrightarrow> truthy p \<and> typeof p = ''object''"
  by (simp add: isPackage_verdict)

lemma not_inherited_9_9_9: "from_object_prototype parent ''9.9.9'' = JUndefined"
  by (simp add: from_object_prototype_def object_prototype_methods_def)

lemma remote_record_fields:
  "field (remote_record i n a vs ts) ''id'' = JString i"
  "field (remote_record i n a vs ts) ''name'' = JString n"
  "field (remote_record i n a vs ts) ''author'' = a"
  "field (remote_record i n a vs ts) ''versions'' = vs"
  "field (remote_record i n a vs ts) ''tags'' = ts"
  "truthy (remote_record i n a vs ts)"
  "typeof (remote_record i n a vs ts) = ''object''"
  by (simp_all add: remote_record_def field_JObject)

lemma manifest_record_fields:
  "field (manifest_record n v d a e) ''name'' = JString n"
  "field (manifest_record n v d a e) ''version'' = JString v"
  "field (manifest_record n v d a e) ''description'' = JString d"
  "field (manifest_record n v d a e) ''author'' = a"
  "field (manifest_record n v d a e) ''maintainers'' = JUndefined"
  "field (manifest_record n v d a e) ''exports'' = e"
  "truthy (manifest_record n v d a e)"
  "typeof (manifest_record n v d a e) = ''object''"
  by (simp_all add: manifest_record_def field_JObject from_object_prototype_def
      object_prototype_methods_def)

lemma entries_of_JObject: "entries_of (JObject kvs) = kvs"
  by (simp add: entries_of_def)

lemma isTagValid_JObject:
  assumes "list_all (\<lambda>e. verdict (isPackage valid (snd e)) = Inr True) kvs"
  shows "verdict (isTagValid valid (JString k) (JObject kvs)) =
           Inr (k \<noteq> [] \<and> truthy (field (JObject kvs) k))"
proof -
  from assms have "list_all (\<lambda>e. accepted (isPackage valid (snd e))) kvs"
    by (simp add: accepted_def)
  then show ?thesis
    by (simp add: isTagValid_verdict entries_of_JObject tag_found_def)
qed

lemma isTagValid_own_key:
  assumes "list_all (\<lambda>e. verdict (isPackage valid (snd e)) = Inr True) kvs"
    and "map_of kvs k = Some v" and "k \<noteq> []"
  shows "verdict (isTagValid valid (JString k) (JObject kvs)) = Inr True"
proof -
  from assms(2) have "(k, v) \<in> set kvs" by (rule map_of_SomeD)
  with assms(1) have "verdict (isPackage valid v) = Inr True"
    by (auto simp: list_all_iff)
  then have "truthy v" by (simp add: isPackage_accepted_object)
  with assms show ?thesis
    by (simp add: isTagValid_JObject field_present)
qed

lemma remote_record_verdict:
  assumes "verdict (isPackageAuthor a) = Inr True" and "i \<noteq> []" and "n \<noteq> []"
  shows "verdict (isRemotePackage valid (remote_record i n a (JObject vs) (JObject ts))) =
           Inr (list_all (\<lambda>e. accepted (isPackage valid (snd e))) vs \<and>
                list_all (\<lambda>e. accepted (isTagValid valid (snd e) (JObject vs))) ts)"
  using assms
  by (simp add: isRemotePackage_verdict remote_record_fields entries_of_JObject accepted_def)

lemma isPackage_version_replaced:
  assumes "verdict (isPackage permissive (JObject ((''version'', JString w) # kvs))) = Inr True"
  shows "verdict (isPackage valid (JObject ((''version'', JString v) # kvs))) =
           Inr (v \<noteq> [] \<and> valid v)"
  using assms by (simp add: isPackage_verdict field_Cons version_accepted_def)

lemma example_fields_accepted:
  assumes "valid ''0.1.0''"
  shows "verdict (isPackage valid (JObject example_fields)) = Inr True"
  by (simp add: isPackage_verdict example_fields_def field_JObject
      name_accepted_def version_accepted_def lower_char_def is_upper_def assms
      example_author_accepted example_exports_accepted maintainers_accepted_def
      from_object_prototype_def object_prototype_methods_def)




lemma npm_semver_cases:
  "npm_semver_valid ''1.0.0''" "npm_semver_valid ''1.0.0-alpha.1''" "npm_semver_valid ''v1.0.0''"
  "\<not> npm_semver_valid ''1.0''" "\<not> npm_semver_valid ''1.0.0-''"
  by (simp_all add: npm_semver_valid_def MAX_LENGTH_def MAX_SAFE_INTEGER_def trim_def is_space_def
      strip_v_def core_identifiers_def decimal_value_def isValidSemVer_def cut_def
      numeric_identifier_def prerelease_identifier_def is_digit_def is_identifier_char_def)

lemma example_fields_otherwise_valid:
  "verdict (isPackage (\<lambda>s. True) (JObject ((''version'', JString ''0'') # example_fields))) = Inr True"
proof -
  have "verdict (isPackage (\<lambda>s. True) (JObject example_fields)) = Inr True"
    by (rule example_fields_accepted) simp
  then show ?thesis
    by (simp add: isPackage_verdict field_Cons version_accepted_def)
qed

lemma isPackageExport_any_Data: "isPackageExport_any (Data v) = isPackageExport v"
  by (simp add: isPackageExport_any_def isPackageExport_def)

lemma and_then_lift_Inl: "and_then (lift (Inl e)) f = ([], Inl e)"
  by (simp add: and_then_def lift_def)

section \<open>The claims\<close>

text \<open>
  Claim C9, amended. For every input value that is plain data (\<^verbatim>\<open>undefined\<close>,
  \<^verbatim>\<open>null\<close>, booleans, numbers, strings, arrays and objects with data properties only, as
  a JSON parser produces them, and the built-in functions and prototype objects), each of
  the five validators returns a boolean: no call ends in an exception, whatever the
  semantic-version checker answers, and a failed check is the return value \<^verbatim>\<open>false\<close>.
  The guards in front of every destructuring assignment, \<^verbatim>\<open>Object.entries\<close>,
  \<^verbatim>\<open>toLowerCase\<close> and \<^verbatim>\<open>versions[tag]\<close> keep the operations that raise away from
  \<^verbatim>\<open>null\<close>, \<^verbatim>\<open>undefined\<close> and the values of the wrong type.
\<close>

theorem validators_total:
  "(\<exists>b. verdict (isPackageExport x) = Inr b) \<and>
   (\<exists>b. verdict (isPackageAuthor x) = Inr b) \<and>
   (\<exists>b. verdict (isPackage valid x) = Inr b) \<and>
   (\<exists>b. verdict (isTagValid valid tag versions) = Inr b) \<and>
   (\<exists>b. verdict (isRemotePackage valid x) = Inr b)"
proof (intro conjI)
  show "\<exists>b. verdict (isPackageExport x) = Inr b"
    using isPackageExport_total by blast
  show "\<exists>b. verdict (isPackageAuthor x) = Inr b"
    using isPackageAuthor_total by blast
  show "\<exists>b. verdict (isPackage valid x) = Inr b"
    using isPackage_total by blast
  show "\<exists>b. verdict (isTagValid valid tag versions) = Inr b"
    using isTagValid_total by blast
  show "\<exists>b. verdict (isRemotePackage valid x) = Inr b"
    using isRemotePackage_total by blast
qed

text \<open>
  The inputs of the witness stand in front of operations that raise: a property read of
  \<^verbatim>\<open>undefined\<close>, \<^verbatim>\<open>toLowerCase\<close> of a number, \<^verbatim>\<open>Object.entries(null)\<close>.
\<close>

theorem validators_total_witness:
  "toLowerCase (JNumber (Finite 5)) = Inl TypeError \<and>
   object_entries JNull = Inl TypeError \<and>
   get_property JUndefined ''main'' = Inl TypeError \<and>
   (\<exists>b. verdict (isPackageExport JUndefined) = Inr b) \<and>
   (\<exists>b. verdict (isPackageAuthor JUndefined) = Inr b) \<and>
   (\<exists>b. verdict (isPackage isValidSemVer (JObject [(''name'', JNumber (Finite 5))])) = Inr b) \<and>
   (\<exists>b. verdict (isTagValid isValidSemVer (JString ''1.0.0'') JNull) = Inr b) \<and>
   (\<exists>b. verdict (isRemotePackage isValidSemVer JUndefined) = Inr b)"
  using validators_total [of JUndefined isValidSemVer "JString ''1.0.0''" JNull]
    validators_total [of "JObject [(''name'', JNumber (Finite 5))]" isValidSemVer "JString ''1.0.0''" JNull]
  by simp

text \<open>
  Claim C9 as it is written, for every input value, fails at an object whose property
  \<^verbatim>\<open>main\<close> is an accessor with a throwing getter: the object passes the guard of
  \<^verbatim>\<open>isPackageExport\<close>, the destructuring assignment runs the getter, and the call ends in
  the exception instead of a boolean.
\<close>

theorem validators_total_counterexample:
  "isPackageExport_any (Accessors [(''main'', Inl TypeError)]) = ([], Inl TypeError) \<and>
   \<not> (\<exists>b. verdict (isPackageExport_any (Accessors [(''main'', Inl TypeError)])) = Inr b)"
  by (simp add: isPackageExport_any_def and_then_lift_Inl)

text \<open>
  Claim C10. Whenever the \<^verbatim>\<open>name\<close> field of \<open>x\<close> is the empty string,
  \<^verbatim>\<open>isPackage(x)\<close> returns \<^verbatim>\<open>false\<close>, although the empty string is its own lowercase
  form: \<^verbatim>\<open>!name\<close> rejects it first.
\<close>

theorem empty_name_rejected:
  assumes "get_property x ''name'' = Inr (JString '''')"
  shows "verdict (isPackage valid x) = Inr False"
proof -
  from assms have "field x ''name'' = JString ''''"
    by (simp add: field_def)
  then have "\<not> name_accepted (field x ''name'')"
    by (simp add: name_accepted_def)
  then show ?thesis
    by (simp add: isPackage_verdict)
qed

theorem empty_name_rejected_witness:
  "get_property (example_manifest '''' ''1.0.0'') ''name'' = Inr (JString '''') \<and>
   verdict (isPackage isValidSemVer (example_manifest '''' ''1.0.0'')) = Inr False"
proof -
  have h: "get_property (example_manifest '''' ''1.0.0'') ''name'' = Inr (JString '''')"
    by (simp add: example_manifest_def manifest_record_def)
  from h empty_name_rejected [OF h, of isValidSemVer] show ?thesis by simp
qed

text \<open>
  Claim C2. When the map \<open>versions\<close> holds an entry whose value \<^verbatim>\<open>isPackage\<close> does not
  accept, \<^verbatim>\<open>isTagValid(tag, versions)\<close> returns \<^verbatim>\<open>false\<close> for every \<open>tag\<close>, also for
  a tag that is the key of an entry \<^verbatim>\<open>isPackage\<close> accepts.
\<close>

theorem poisoned_versions:
  assumes "object_entries versions = Inr es"
    and "(k, v) \<in> set es"
    and "verdict (isPackage valid v) \<noteq> Inr True"
  shows "verdict (isTagValid valid tag versions) = Inr False"
proof -
  from assms(1) have "entries_of versions = es"
    by (simp add: entries_of_def)
  moreover from assms(2,3) have "\<not> list_all (\<lambda>e. accepted (isPackage valid (snd e))) es"
    by (force simp: list_all_iff accepted_def)
  ultimately show ?thesis
    by (simp add: isTagValid_verdict)
qed

theorem poisoned_versions_witness:
  "object_entries (JObject [(''1.0.0'', example_manifest ''left-pad'' ''1.0.0''), (''2.0.0'', JNull)]) =
     Inr [(''1.0.0'', example_manifest ''left-pad'' ''1.0.0''), (''2.0.0'', JNull)] \<and>
   (''2.0.0'', JNull) \<in> set [(''1.0.0'', example_manifest ''left-pad'' ''1.0.0''), (''2.0.0'', JNull)] \<and>
   verdict (isPackage isValidSemVer JNull) \<noteq> Inr True \<and>
   verdict (isPackage isValidSemVer (example_manifest ''left-pad'' ''1.0.0'')) = Inr True \<and>
   verdict (isTagValid isValidSemVer (JString ''1.0.0'')
     (JObject [(''1.0.0'', example_manifest ''left-pad'' ''1.0.0''), (''2.0.0'', JNull)])) = Inr False"
proof -
  let ?good = "example_manifest ''left-pad'' ''1.0.0''"
  let ?es = "[(''1.0.0'', ?good), (''2.0.0'', JNull)]"
  have h1: "object_entries (JObject ?es) = Inr ?es" by simp
  have h2: "(''2.0.0'', JNull) \<in> set ?es" by simp
  have h3: "verdict (isPackage isValidSemVer JNull) \<noteq> Inr True"
    by (simp add: isPackage_verdict)
  have good: "verdict (isPackage isValidSemVer ?good) = Inr True"
    by (rule example_manifest_accepted)
  from h1 h2 h3 good poisoned_versions [OF h1 h2 h3, of "JString ''1.0.0''"]
  show ?thesis by simp
qed

text \<open>
  Claim C8. For an object whose \<^verbatim>\<open>name\<close> is a non-empty string,
  \<^verbatim>\<open>isPackageAuthor\<close> returns \<^verbatim>\<open>true\<close> when \<^verbatim>\<open>email\<close> and \<^verbatim>\<open>url\<close> are each
  absent or explicitly \<^verbatim>\<open>null\<close> (or a string), and returns \<^verbatim>\<open>false\<close> when
  \<^verbatim>\<open>email\<close> or \<^verbatim>\<open>url\<close> holds a number.
\<close>

theorem author_optional_fields:
  assumes "map_of kvs ''name'' = Some (JString n)" and "n \<noteq> []"
  shows "((map_of kvs ''email'' = None \<or> map_of kvs ''email'' = Some JNull \<or>
           (\<exists>s. map_of kvs ''email'' = Some (JString s))) \<and>
          (map_of kvs ''url'' = None \<or> map_of kvs ''url'' = Some JNull \<or>
           (\<exists>s. map_of kvs ''url'' = Some (JString s))) \<longrightarrow>
          verdict (isPackageAuthor (JObject kvs)) = Inr True) \<and>
         ((\<exists>r. map_of kvs ''email'' = Some (JNumber r)) \<or>
          (\<exists>r. map_of kvs ''url'' = Some (JNumber r)) \<longrightarrow>
          verdict (isPackageAuthor (JObject kvs)) = Inr False)"
proof -
  from assms have name: "truthy (field (JObject kvs) ''name'')"
    "typeof (field (JObject kvs) ''name'') = ''string''"
    by (simp_all add: field_present)
  have tolerant: "nullish (field (JObject kvs) k) \<or> typeof (field (JObject kvs) k) = ''string''"
    if "map_of kvs k = None \<or> map_of kvs k = Some JNull \<or> (\<exists>s. map_of kvs k = Some (JString s))"
      and "k \<notin> set object_prototype_methods" "k \<noteq> ''__proto__''" for k
    using that by (auto simp: field_absent field_present)
  have numeric: "\<not> (nullish (field (JObject kvs) k) \<or> typeof (field (JObject kvs) k) = ''string'')"
    if "map_of kvs k = Some (JNumber r)" for k r
    using that by (simp add: field_present)
  show ?thesis
  proof (intro conjI impI)
    assume "(map_of kvs ''email'' = None \<or> map_of kvs ''email'' = Some JNull \<or>
           (\<exists>s. map_of kvs ''email'' = Some (JString s))) \<and>
          (map_of kvs ''url'' = None \<or> map_of kvs ''url'' = Some JNull \<or>
           (\<exists>s. map_of kvs ''url'' = Some (JString s)))"
    then have "nullish (field (JObject kvs) ''email'') \<or> typeof (field (JObject kvs) ''email'') = ''string''"
      and "nullish (field (JObject kvs) ''url'') \<or> typeof (field (JObject kvs) ''url'') = ''string''"
      by (simp_all add: tolerant author_keys_not_inherited)
    with name show "verdict (isPackageAuthor (JObject kvs)) = Inr True"
      by (simp add: isPackageAuthor_verdict)
  next
    assume "(\<exists>r. map_of kvs ''email'' = Some (JNumber r)) \<or>
          (\<exists>r. map_of kvs ''url'' = Some (JNumber r))"
    then have "\<not> (nullish (field (JObject kvs) ''email'') \<or> typeof (field (JObject kvs) ''email'') = ''string'')
      \<or> \<not> (nullish (field (JObject kvs) ''url'') \<or> typeof (field (JObject kvs) ''url'') = ''string'')"
      using numeric by blast
    then show "verdict (isPackageAuthor (JObject kvs)) = Inr False"
      by (auto simp: isPackageAuthor_verdict)
  qed
qed

theorem author_optional_fields_witness:
  "verdict (isPackageAuthor (JObject [(''name'', JString ''Ann'')])) = Inr True \<and>
   verdict (isPackageAuthor (JObject [(''name'', JString ''Ann''), (''email'', JNull)])) = Inr True \<and>
   verdict (isPackageAuthor (JObject [(''name'', JString ''Ann''), (''url'', JNull)])) = Inr True \<and>
   verdict (isPackageAuthor (JObject [(''name'', JString ''Ann''), (''email'', JNumber (Finite 7))])) = Inr False \<and>
   verdict (isPackageAuthor (JObject [(''name'', JString ''Ann''), (''url'', JNumber (Finite 7))])) = Inr False"
  using author_optional_fields [of "[(''name'', JString ''Ann'')]" "''Ann''"]
    author_optional_fields [of "[(''name'', JString ''Ann''), (''email'', JNull)]" "''Ann''"]
    author_optional_fields [of "[(''name'', JString ''Ann''), (''url'', JNull)]" "''Ann''"]
    author_optional_fields [of "[(''name'', JString ''Ann''), (''email'', JNumber (Finite 7))]" "''Ann''"]
    author_optional_fields [of "[(''name'', JString ''Ann''), (''url'', JNumber (Finite 7))]" "''Ann''"]
  by simp

text \<open>
  Claim C5. With \<^verbatim>\<open>versions = {"1.0.0": p}\<close> for a package \<open>p\<close> that \<^verbatim>\<open>isPackage\<close>
  accepts: \<^verbatim>\<open>isTagValid("9.9.9", versions)\<close> returns \<^verbatim>\<open>false\<close>; a remote package with
  a non-empty \<^verbatim>\<open>id\<close> and \<^verbatim>\<open>name\<close>, an author \<^verbatim>\<open>isPackageAuthor\<close> accepts, these
  versions and \<^verbatim>\<open>tags = {latest: "9.9.9"}\<close> is rejected by \<^verbatim>\<open>isRemotePackage\<close>, and the
  same record with \<^verbatim>\<open>tags = {latest: "1.0.0"}\<close> is accepted.
\<close>

theorem tag_referential_integrity:
  assumes "verdict (isPackage valid p) = Inr True"
    and "verdict (isPackageAuthor a) = Inr True"
    and "i \<noteq> []" and "n \<noteq> []"
  shows "verdict (isTagValid valid (JString ''9.9.9'') (JObject [(''1.0.0'', p)])) = Inr False \<and>
         verdict (isRemotePackage valid
           (remote_record i n a (JObject [(''1.0.0'', p)]) (JObject [(''latest'', JString ''9.9.9'')]))) =
           Inr False \<and>
         verdict (isRemotePackage valid
           (remote_record i n a (JObject [(''1.0.0'', p)]) (JObject [(''latest'', JString ''1.0.0'')]))) =
           Inr True"
proof -
  let ?versions = "[(''1.0.0'', p)]"
  from assms(1) have all: "list_all (\<lambda>e. verdict (isPackage valid (snd e)) = Inr True) ?versions"
    by simp
  have "field (JObject ?versions) ''9.9.9'' = JUndefined"
    by (simp add: field_JObject not_inherited_9_9_9)
  then have dangling: "verdict (isTagValid valid (JString ''9.9.9'') (JObject ?versions)) = Inr False"
    by (simp add: isTagValid_JObject [OF all])
  have pointing: "verdict (isTagValid valid (JString ''1.0.0'') (JObject ?versions)) = Inr True"
    by (rule isTagValid_own_key [OF all]) simp_all
  from assms(1) dangling pointing show ?thesis
    by (simp add: remote_record_verdict [OF assms(2-4)] accepted_def)
qed

theorem tag_referential_integrity_witness:
  "verdict (isTagValid isValidSemVer (JString ''9.9.9'')
     (JObject [(''1.0.0'', example_manifest ''left-pad'' ''1.0.0'')])) = Inr False \<and>
   verdict (isRemotePackage isValidSemVer
     (remote_record ''abc123'' ''left-pad'' example_author
        (JObject [(''1.0.0'', example_manifest ''left-pad'' ''1.0.0'')])
        (JObject [(''latest'', JString ''9.9.9'')]))) = Inr False \<and>
   verdict (isRemotePackage isValidSemVer
     (remote_record ''abc123'' ''left-pad'' example_author
        (JObject [(''1.0.0'', example_manifest ''left-pad'' ''1.0.0'')])
        (JObject [(''latest'', JString ''1.0.0'')]))) = Inr True"
proof -
  have a: "verdict (isPackageAuthor example_author) = Inr True"
    using example_author_accepted by (simp add: accepted_def)
  show ?thesis
    by (rule tag_referential_integrity [OF example_manifest_accepted a]) simp_all
qed

text \<open>
  Claim C6. The end-to-end scenario: \<^verbatim>\<open>id\<close> "abc123", \<^verbatim>\<open>name\<close> "left-pad", an author
  that \<^verbatim>\<open>isPackageAuthor\<close> accepts, \<^verbatim>\<open>versions\<close> with the one manifest "1.0.0" whose
  \<^verbatim>\<open>exports\<close> is \<^verbatim>\<open>{".": {main: "index.js"}}\<close>, and \<^verbatim>\<open>tags = {latest: "1.0.0"}\<close>.
  When the semantic-version checker accepts "1.0.0", \<^verbatim>\<open>isRemotePackage\<close> returns
  \<^verbatim>\<open>true\<close> and records no diagnostic.
\<close>

theorem left_pad_scenario:
  assumes "valid ''1.0.0''"
    and "verdict (isPackageAuthor a) = Inr True"
  shows "diagnostics (isRemotePackage valid
           (remote_record ''abc123'' ''left-pad'' a
              (JObject [(''1.0.0'',
                 manifest_record ''left-pad'' ''1.0.0'' d a
                   (JObject [(''.'', JObject [(''main'', JString ''index.js'')])]))])
              (JObject [(''latest'', JString ''1.0.0'')]))) = [] \<and>
         verdict (isRemotePackage valid
           (remote_record ''abc123'' ''left-pad'' a
              (JObject [(''1.0.0'',
                 manifest_record ''left-pad'' ''1.0.0'' d a
                   (JObject [(''.'', JObject [(''main'', JString ''index.js'')])]))])
              (JObject [(''latest'', JString ''1.0.0'')]))) = Inr True"
proof -
  let ?manifest = "manifest_record ''left-pad'' ''1.0.0'' d a
    (JObject [(''.'', JObject [(''main'', JString ''index.js'')])])"
  from assms(2) have a: "accepted (isPackageAuthor a)"
    by (simp add: accepted_def)
  have exports: "exports_accepted (JObject [(''.'', JObject [(''main'', JString ''index.js'')])])"
    using example_exports_accepted by (simp add: example_exports_def)
  have manifest: "verdict (isPackage valid ?manifest) = Inr True"
    by (simp add: isPackage_verdict manifest_record_fields name_accepted_def lower_char_def
        is_upper_def version_accepted_def assms(1) a maintainers_accepted_def exports)
  let ?remote = "remote_record ''abc123'' ''left-pad'' a (JObject [(''1.0.0'', ?manifest)])
    (JObject [(''latest'', JString ''1.0.0'')])"
  have all: "list_all (\<lambda>e. verdict (isPackage valid (snd e)) = Inr True) [(''1.0.0'', ?manifest)]"
    using manifest by simp
  have "verdict (isTagValid valid (JString ''1.0.0'') (JObject [(''1.0.0'', ?manifest)])) = Inr True"
    by (rule isTagValid_own_key [OF all]) simp_all
  with manifest have "verdict (isRemotePackage valid ?remote) = Inr True"
    by (simp add: remote_record_verdict [OF assms(2)] accepted_def)
  then have "accepted (isRemotePackage valid ?remote)"
    by (simp add: accepted_def)
  then have "isRemotePackage valid ?remote = ([], Inr True)"
    by (rule isRemotePackage_accepted)
  then show ?thesis by simp
qed

theorem left_pad_scenario_witness:
  "isValidSemVer ''1.0.0'' \<and>
   verdict (isPackageAuthor example_author) = Inr True \<and>
   diagnostics (isRemotePackage isValidSemVer
     (remote_record ''abc123'' ''left-pad'' example_author
        (JObject [(''1.0.0'',
           manifest_record ''left-pad'' ''1.0.0'' ''String left pad'' example_author
             (JObject [(''.'', JObject [(''main'', JString ''index.js'')])]))])
        (JObject [(''latest'', JString ''1.0.0'')]))) = [] \<and>
   verdict (isRemotePackage isValidSemVer
     (remote_record ''abc123'' ''left-pad'' example_author
        (JObject [(''1.0.0'',
           manifest_record ''left-pad'' ''1.0.0'' ''String left pad'' example_author
             (JObject [(''.'', JObject [(''main'', JString ''index.js'')])]))])
        (JObject [(''latest'', JString ''1.0.0'')]))) = Inr True"
proof -
  have a: "verdict (isPackageAuthor example_author) = Inr True"
    using example_author_accepted by (simp add: accepted_def)
  from isValidSemVer_1_0_0 a
    left_pad_scenario [of isValidSemVer example_author "''String left pad''"]
  show ?thesis by simp
qed

text \<open>
  Claim C1 says that, on a map whose entries \<^verbatim>\<open>isPackage\<close> all accepts,
  \<^verbatim>\<open>isTagValid(tag, versions)\<close> returns \<^verbatim>\<open>true\<close> exactly when \<open>versions\<close> has a key
  equal to \<open>tag\<close>. One half holds: a key of the map is a valid tag
  (\<open>isTagValid_own_key\<close>). The other half fails, because the code tests the truthiness
  of \<^verbatim>\<open>versions[tag]\<close>, and that read also finds what the map inherits from
  \<^verbatim>\<open>Object.prototype\<close>: for a tag that names one of its methods and is not a key of
  the map, \<^verbatim>\<open>isTagValid\<close> returns \<^verbatim>\<open>true\<close>.
\<close>

theorem isTagValid_inherited_key:
  assumes "list_all (\<lambda>e. verdict (isPackage valid (snd e)) = Inr True) kvs"
    and "map_of kvs k = None"
    and "k \<in> set object_prototype_methods"
  shows "verdict (isTagValid valid (JString k) (JObject kvs)) = Inr True"
proof -
  from assms(3) have "k \<noteq> []"
    by (auto simp: object_prototype_methods_def)
  moreover from assms(2,3) have "truthy (field (JObject kvs) k)"
    by (simp add: field_JObject from_object_prototype_def)
  ultimately show ?thesis
    using assms(1) by (simp add: isTagValid_JObject)
qed

theorem isTagValid_inherited_key_witness:
  "map_of [(''1.0.0'', example_manifest ''left-pad'' ''1.0.0'')] ''constructor'' = None \<and>
   verdict (isTagValid isValidSemVer (JString ''constructor'')
     (JObject [(''1.0.0'', example_manifest ''left-pad'' ''1.0.0'')])) = Inr True \<and>
   verdict (isTagValid isValidSemVer (JString ''constructor'') (JObject [])) = Inr True"
proof -
  let ?kvs = "[(''1.0.0'', example_manifest ''left-pad'' ''1.0.0'')]"
  have h1: "list_all (\<lambda>e. verdict (isPackage isValidSemVer (snd e)) = Inr True) ?kvs"
    by (simp add: example_manifest_accepted)
  have h2: "map_of ?kvs ''constructor'' = None" by simp
  have h3: "''constructor'' \<in> set object_prototype_methods"
    by (simp add: object_prototype_methods_def)
  have "verdict (isTagValid isValidSemVer (JString ''constructor'') (JObject [])) = Inr True"
    by (rule isTagValid_inherited_key [OF _ _ h3]) simp_all
  with h2 isTagValid_inherited_key [OF h1 h2 h3] show ?thesis by simp
qed

text \<open>
  Claim C3 says that \<^verbatim>\<open>isRemotePackage\<close> returns \<^verbatim>\<open>false\<close> when \<^verbatim>\<open>tags\<close> has no key
  \<^verbatim>\<open>latest\<close>. The code never looks for that key: a record that passes the checks of
  \<^verbatim>\<open>id\<close>, \<^verbatim>\<open>name\<close>, \<^verbatim>\<open>author\<close> and \<^verbatim>\<open>versions\<close> and whose \<^verbatim>\<open>tags\<close> is the
  empty object is accepted.
\<close>

theorem remote_without_latest_accepted:
  assumes "verdict (isPackageAuthor a) = Inr True"
    and "i \<noteq> []" and "n \<noteq> []"
    and "list_all (\<lambda>e. verdict (isPackage valid (snd e)) = Inr True) vs"
  shows "verdict (isRemotePackage valid (remote_record i n a (JObject vs) (JObject []))) = Inr True"
proof -
  from assms(4) have "list_all (\<lambda>e. accepted (isPackage valid (snd e))) vs"
    by (simp add: accepted_def)
  then show ?thesis
    by (simp add: remote_record_verdict [OF assms(1-3)])
qed

theorem remote_without_latest_accepted_witness:
  "map_of ([] :: (string \<times> jsval) list) ''latest'' = None \<and>
   verdict (isRemotePackage isValidSemVer
     (remote_record ''abc123'' ''left-pad'' example_author
        (JObject [(''1.0.0'', example_manifest ''left-pad'' ''1.0.0'')]) (JObject []))) = Inr True"
proof -
  have a: "verdict (isPackageAuthor example_author) = Inr True"
    using example_author_accepted by (simp add: accepted_def)
  have "verdict (isRemotePackage isValidSemVer
     (remote_record ''abc123'' ''left-pad'' example_author
        (JObject [(''1.0.0'', example_manifest ''left-pad'' ''1.0.0'')]) (JObject []))) = Inr True"
    by (rule remote_without_latest_accepted [OF a]) (simp_all add: example_manifest_accepted)
  then show ?thesis by simp
qed

text \<open>
  Claim C4, amended. For a manifest that is valid in every other field (\<^verbatim>\<open>isPackage\<close>
  accepts it once the version check cannot fail: a checker that accepts every string, and a
  non-empty version), \<^verbatim>\<open>isPackage\<close> with the checker of the npm package returns
  \<^verbatim>\<open>true\<close> for the versions "1.0.0", "1.0.0-alpha.1" and "v1.0.0", and \<^verbatim>\<open>false\<close> for
  "1.0" and "1.0.0-".
\<close>

theorem semver_boundary_cases:
  assumes "verdict (isPackage (\<lambda>s. True) (JObject ((''version'', JString ''0'') # kvs))) = Inr True"
  shows "verdict (isPackage npm_semver_valid (JObject ((''version'', JString ''1.0.0'') # kvs))) = Inr True \<and>
         verdict (isPackage npm_semver_valid (JObject ((''version'', JString ''1.0.0-alpha.1'') # kvs))) = Inr True \<and>
         verdict (isPackage npm_semver_valid (JObject ((''version'', JString ''v1.0.0'') # kvs))) = Inr True \<and>
         verdict (isPackage npm_semver_valid (JObject ((''version'', JString ''1.0'') # kvs))) = Inr False \<and>
         verdict (isPackage npm_semver_valid (JObject ((''version'', JString ''1.0.0-'') # kvs))) = Inr False"
proof -
  have verdict_of: "verdict (isPackage npm_semver_valid (JObject ((''version'', JString v) # kvs))) =
      Inr (v \<noteq> [] \<and> npm_semver_valid v)" for v
    using assms by (rule isPackage_version_replaced)
  show ?thesis
    by (simp add: verdict_of npm_semver_cases)
qed

theorem semver_boundary_cases_witness:
  "verdict (isPackage (\<lambda>s. True) (JObject ((''version'', JString ''0'') # example_fields))) = Inr True \<and>
   verdict (isPackage npm_semver_valid (JObject ((''version'', JString ''1.0.0'') # example_fields))) = Inr True \<and>
   verdict (isPackage npm_semver_valid (JObject ((''version'', JString ''1.0.0-alpha.1'') # example_fields))) = Inr True \<and>
   verdict (isPackage npm_semver_valid (JObject ((''version'', JString ''v1.0.0'') # example_fields))) = Inr True \<and>
   verdict (isPackage npm_semver_valid (JObject ((''version'', JString ''1.0'') # example_fields))) = Inr False \<and>
   verdict (isPackage npm_semver_valid (JObject ((''version'', JString ''1.0.0-'') # example_fields))) = Inr False"
  using example_fields_otherwise_valid semver_boundary_cases [OF example_fields_otherwise_valid]
  by simp

text \<open>
  Claim C4 as it is written fails at the version "v1.0.0": the manifest is valid in every
  other field, \<^verbatim>\<open>semver.valid\<close> accepts the string, and \<^verbatim>\<open>isPackage\<close> returns
  \<^verbatim>\<open>true\<close>, where the claim says \<^verbatim>\<open>false\<close>.
\<close>

theorem semver_boundary_cases_counterexample:
  "verdict (isPackage (\<lambda>s. True) (JObject ((''version'', JString ''0'') # example_fields))) = Inr True \<and>
   npm_semver_valid ''v1.0.0'' \<and>
   verdict (isPackage npm_semver_valid (JObject ((''version'', JString ''v1.0.0'') # example_fields))) = Inr True"
proof -
  have "verdict (isPackage npm_semver_valid (JObject ((''version'', JString ''v1.0.0'') # example_fields))) =
      Inr (''v1.0.0'' \<noteq> [] \<and> npm_semver_valid ''v1.0.0'')"
    using example_fields_otherwise_valid by (rule isPackage_version_replaced)
  with example_fields_otherwise_valid show ?thesis
    by (simp add: npm_semver_cases)
qed




end
